theory Spec2Isabelle
  imports Main "HOL-Library.Sublist" "HOL-Library.Word"
begin

section \<open>Data model\<close>

text \<open>
  The translation unit \<^verbatim>\<open>ShaderCompilerOpenGL.cpp\<close> drives two libraries: the front end
  (parse, link, lowering) and the cross compiler (semantic model, emitter). Their objects
  are modelled by the fields the unit reads and writes; identifiers, binding slots and
  numeric shapes are \<^verbatim>\<open>uint32_t\<close>.
\<close>

type_synonym ID = "32 word"

datatype EShLanguage = EShLangVertex | EShLangFragment

text \<open>\<^verbatim>\<open>spirv_cross::Resource\<close>: the fields \<^verbatim>\<open>id\<close> and \<^verbatim>\<open>name\<close> carry a suffix, since
  \<open>id\<close> is a constant of HOL.\<close>

record Resource =
  id_res :: ID
  type_id :: ID
  base_type_id :: ID
  name_res :: string

record CombinedImageSampler =
  combined_id :: ID
  image_id :: ID
  sampler_id :: ID

record SPIRType =
  columns :: "32 word"
  vecsize :: "32 word"
  member_types :: "ID list"

record Options =
  version :: nat
  es :: bool
  emit_uniform_buffer_as_plain_uniforms :: bool

record ShaderResources =
  uniform_buffers :: "Resource list"
  separate_samplers :: "Resource list"

text \<open>
  The semantic model held by a \<^verbatim>\<open>spirv_cross::CompilerGLSL\<close>, as far as the unit touches
  it: the options, the declared resources, the combined image samplers, the name and the
  binding decoration of every identifier, the types, the member names and the header lines.
\<close>

record CompilerGLSL =
  common_options :: Options
  shader_resources :: ShaderResources
  combined_image_samplers :: "CombinedImageSampler list"
  names :: "ID \<Rightarrow> string"
  decoration_binding :: "ID \<Rightarrow> 32 word option"
  types :: "ID \<Rightarrow> SPIRType"
  member_names :: "ID \<Rightarrow> nat \<Rightarrow> string"
  header_lines :: "string list"

text \<open>
  Every \<^verbatim>\<open>throw std::exception()\<close> of the unit is one generic exception; the model names the
  site. \<open>SubstrOutOfRange\<close> is \<^verbatim>\<open>std::out_of_range\<close> of \<^verbatim>\<open>substr\<close>, and \<open>LibraryError\<close> an exception
  raised inside the libraries. \<open>UniformBufferIndex\<close> is no exception: it marks the unchecked
  read \<^verbatim>\<open>uniform_buffers[0]\<close> of an empty vector, which is undefined behaviour and throws
  nothing. The tag only makes the read total; a result that carries it tells that the read
  was reached and nothing about what the program does from there on, so the statements
  about thrown exceptions leave it out.
\<close>

datatype error =
  ParseFailure
| LinkFailure
| UnsupportedUniformShape
| UniformBufferIndex
| SubstrOutOfRange
| LibraryError

text \<open>A \<^verbatim>\<open>glslang::TProgram\<close> is the list of the shaders added so far.\<close>

type_synonym TProgram = "(EShLanguage \<times> string) list"

text \<open>
  The libraries' own computations are parameters of the model: \<open>shader_parse\<close> is
  \<^verbatim>\<open>TShader::parse\<close>, \<open>program_link\<close> is \<^verbatim>\<open>TProgram::link\<close>, \<open>new_compiler\<close> is the lowering to the
  binary form, its parse and the construction of the \<^verbatim>\<open>CompilerGLSL\<close> (\<open>None\<close> when the library
  throws), \<open>build_combined_image_samplers\<close> is the member function of that name and
  \<open>compile\<close> is the emitter \<^verbatim>\<open>CompilerGLSL::compile\<close>.
\<close>

record toolchain =
  shader_parse :: "EShLanguage \<Rightarrow> string \<Rightarrow> bool"
  program_link :: "TProgram \<Rightarrow> bool"
  new_compiler :: "TProgram \<Rightarrow> EShLanguage \<Rightarrow> CompilerGLSL option"
  build_combined_image_samplers :: "CompilerGLSL \<Rightarrow> CompilerGLSL"
  compile :: "CompilerGLSL \<Rightarrow> string option"

text \<open>\<^verbatim>\<open>ShaderInfo\<close>: the compiled model handed over and the bytes of the final text.\<close>

type_synonym ShaderInfo = "CompilerGLSL \<times> string"

section \<open>The interface of the semantic model\<close>

text \<open>
  The accessors of the cross compiler, as plain reads and writes of the store. Only the
  binding decoration is ever used; \<^verbatim>\<open>get_decoration\<close> answers 0 for an identifier that has
  none.
\<close>

definition get_decoration :: "CompilerGLSL \<Rightarrow> ID \<Rightarrow> 32 word" where
  "get_decoration compiler i =
     (case decoration_binding compiler i of None \<Rightarrow> 0 | Some b \<Rightarrow> b)"

definition set_decoration :: "ID \<Rightarrow> 32 word \<Rightarrow> CompilerGLSL \<Rightarrow> CompilerGLSL" where
  "set_decoration i b compiler =
     compiler\<lparr>decoration_binding := (decoration_binding compiler)(i := Some b)\<rparr>"

definition unset_decoration :: "ID \<Rightarrow> CompilerGLSL \<Rightarrow> CompilerGLSL" where
  "unset_decoration i compiler =
     compiler\<lparr>decoration_binding := (decoration_binding compiler)(i := None)\<rparr>"

definition set_name :: "ID \<Rightarrow> string \<Rightarrow> CompilerGLSL \<Rightarrow> CompilerGLSL" where
  "set_name i n compiler = compiler\<lparr>names := (names compiler)(i := n)\<rparr>"

definition get_type :: "CompilerGLSL \<Rightarrow> ID \<Rightarrow> SPIRType" where
  "get_type compiler i = types compiler i"

definition get_member_name :: "CompilerGLSL \<Rightarrow> ID \<Rightarrow> nat \<Rightarrow> string" where
  "get_member_name compiler i index = member_names compiler i index"

definition add_header_line :: "string \<Rightarrow> CompilerGLSL \<Rightarrow> CompilerGLSL" where
  "add_header_line line compiler =
     compiler\<lparr>header_lines := header_lines compiler @ [line]\<rparr>"

section \<open>Strings\<close>

text \<open>
  \<^verbatim>\<open>std::string::find\<close> (the position of the first occurrence, \<open>None\<close> for \<^verbatim>\<open>npos\<close>),
  \<^verbatim>\<open>replace(pos, len, str)\<close> and \<^verbatim>\<open>substr(pos)\<close>, which throws when \<open>pos\<close> is past the end.
\<close>

fun find_str :: "string \<Rightarrow> string \<Rightarrow> nat option" where
  "find_str pat [] = (if pat = [] then Some 0 else None)"
| "find_str pat (c # cs) =
     (if prefix pat (c # cs) then Some 0 else map_option Suc (find_str pat cs))"

definition replace_str :: "string \<Rightarrow> nat \<Rightarrow> nat \<Rightarrow> string \<Rightarrow> string" where
  "replace_str s pos len new = take pos s @ new @ drop (pos + len) s"

definition substr :: "string \<Rightarrow> nat \<Rightarrow> error + string" where
  "substr s pos = (if length s < pos then Inl SubstrOutOfRange else Inr (drop pos s))"

section \<open>CompileShader\<close>

subsection \<open>Options (lines 41-53)\<close>

definition set_target_options :: "bool \<Rightarrow> CompilerGLSL \<Rightarrow> CompilerGLSL" where
  "set_target_options android compiler =
     compiler\<lparr>common_options :=
       (common_options compiler)
         \<lparr>version := (if android then 300 else 430),
          es := android,
          emit_uniform_buffer_as_plain_uniforms := True\<rparr>\<rparr>"

subsection \<open>Sampler remapping (lines 61-78)\<close>

text \<open>The inner loop: the first combined entry built from the sampler replaces the
  identifier; without one the identifier stays the separate sampler's own.\<close>

fun find_combined :: "CombinedImageSampler list \<Rightarrow> ID \<Rightarrow> ID" where
  "find_combined [] i = i"
| "find_combined (combined # rest) i =
     (if sampler_id combined = i then combined_id combined else find_combined rest i)"

text \<open>One pass of the outer loop. The name is the one of the resource list taken before
  the loop; the binding is read from the compiler as it is in this pass.\<close>

definition remap_sampler ::
  "CombinedImageSampler list \<Rightarrow> Resource \<Rightarrow> CompilerGLSL \<Rightarrow> CompilerGLSL" where
  "remap_sampler combinedSamplers separate compiler =
     (let samplerName = name_res separate;
          binding = get_decoration compiler (id_res separate);
          i = find_combined combinedSamplers (id_res separate)
      in set_decoration i binding (set_name i samplerName compiler))"

fun remap_samplers ::
  "CombinedImageSampler list \<Rightarrow> Resource list \<Rightarrow> CompilerGLSL \<Rightarrow> CompilerGLSL" where
  "remap_samplers combinedSamplers [] compiler = compiler"
| "remap_samplers combinedSamplers (separate # rest) compiler =
     remap_samplers combinedSamplers rest (remap_sampler combinedSamplers separate compiler)"

subsection \<open>Flat uniforms (lines 89-111)\<close>

text \<open>Lines 98-104: the type keyword of a member, or the exception for any other shape.\<close>

definition uniform_type :: "SPIRType \<Rightarrow> error + string" where
  "uniform_type memberType =
     (if columns memberType = 1 \<and> vecsize memberType = 4 then Inr ''vec4 ''
      else if columns memberType = 4 \<and> vecsize memberType = 4 then Inr ''mat4 ''
      else Inl UnsupportedUniformShape)"

text \<open>The loop over the members of the buffer's type, from \<open>index\<close> on.\<close>

fun add_uniforms :: "ID \<Rightarrow> ID list \<Rightarrow> nat \<Rightarrow> CompilerGLSL \<Rightarrow> error + CompilerGLSL" where
  "add_uniforms base [] index compiler = Inr compiler"
| "add_uniforms base (member # rest) index compiler =
     (let memberType = get_type compiler member;
          uniformName = get_member_name compiler base index
      in case uniform_type memberType of
           Inl e \<Rightarrow> Inl e
         | Inr uniformType \<Rightarrow>
             add_uniforms base rest (Suc index)
               (add_header_line (''uniform '' @ uniformType @ uniformName @ '';'') compiler))"

definition unused_name :: "EShLanguage \<Rightarrow> string" where
  "unused_name stage = (if stage = EShLangVertex then ''UnusedVS'' else ''UnusedFS'')"

text \<open>Lines 89-111, on the resource list taken before the loops. The first uniform buffer
  is read without a check; for an empty list the source has undefined behaviour, and the
  model marks that case with \<open>UniformBufferIndex\<close> instead of going on.\<close>

definition flatten_uniforms ::
  "EShLanguage \<Rightarrow> ShaderResources \<Rightarrow> CompilerGLSL \<Rightarrow> error + CompilerGLSL" where
  "flatten_uniforms stage resources compiler =
     (case uniform_buffers resources of
        [] \<Rightarrow> Inl UniformBufferIndex
      | uniformBuffer # _ \<Rightarrow>
          (case add_uniforms (base_type_id uniformBuffer)
                  (member_types (get_type compiler (base_type_id uniformBuffer))) 0 compiler of
             Inl e \<Rightarrow> Inl e
           | Inr compiler' \<Rightarrow>
               Inr (unset_decoration (id_res uniformBuffer)
                     (set_name (id_res uniformBuffer) (unused_name stage) compiler'))))"

subsection \<open>Textual cleanup (lines 115-129)\<close>

definition unusedUniform :: string where
  "unusedUniform = ''uniform Frame Unused''"

definition comment_unused :: "string \<Rightarrow> string" where
  "comment_unused compiled =
     (case find_str unusedUniform compiled of
        None \<Rightarrow> compiled
      | Some pos \<Rightarrow> replace_str compiled pos (length unusedUniform) ''//uniform Frame Unused'')"

definition unusedUniformAccess :: "EShLanguage \<Rightarrow> string" where
  "unusedUniformAccess stage = (if stage = EShLangVertex then ''UnusedVS.'' else ''UnusedFS.'')"

lemma find_str_bound: "find_str pat s = Some pos \<Longrightarrow> pos + length pat \<le> length s"
proof (induction s arbitrary: pos)
  case Nil
  then show ?case by (simp split: if_splits)
next
  case (Cons c cs)
  show ?case
  proof (cases "prefix pat (c # cs)")
    case True
    with Cons.prems have "pos = 0" by simp
    with True show ?thesis using prefix_length_le by fastforce
  next
    case False
    with Cons.prems obtain q where "find_str pat cs = Some q" "pos = Suc q" by auto
    with Cons.IH show ?thesis by simp
  qed
qed

lemma length_unusedUniformAccess: "length (unusedUniformAccess stage) = 9"
  by (simp add: unusedUniformAccess_def)

text \<open>The \<^verbatim>\<open>while\<close> loop: every pass erases the first occurrence and searches again from the
  start of the text.\<close>

function remove_accesses :: "EShLanguage \<Rightarrow> string \<Rightarrow> string" where
  "remove_accesses stage compiled =
     (case find_str (unusedUniformAccess stage) compiled of
        None \<Rightarrow> compiled
      | Some pos \<Rightarrow>
          remove_accesses stage
            (replace_str compiled pos (length (unusedUniformAccess stage)) ''''))"
  by pat_completeness auto
termination
proof (relation "measure (\<lambda>(stage, compiled). length compiled)")
  show "wf (measure (\<lambda>(stage, compiled). length compiled))" by simp
next
  fix stage :: EShLanguage and compiled :: string and pos :: nat
  assume "find_str (unusedUniformAccess stage) compiled = Some pos"
  then have "pos + 9 \<le> length compiled"
    using find_str_bound length_unusedUniformAccess by fastforce
  then show "((stage, replace_str compiled pos (length (unusedUniformAccess stage)) ''''),
              (stage, compiled)) \<in> measure (\<lambda>(stage, compiled). length compiled)"
    by (simp add: replace_str_def length_unusedUniformAccess)
qed

declare remove_accesses.simps [simp del]

definition cleanup :: "EShLanguage \<Rightarrow> string \<Rightarrow> string" where
  "cleanup stage emitted = remove_accesses stage (comment_unused emitted)"

subsection \<open>The patch of the constrained preset (lines 131-148)\<close>

definition version_line :: string where
  "version_line = ''#version 300 es'' @ [CHR 0x0A]"

definition fragDef :: string where
  "fragDef = ''layout(location = 0) out highp vec4 glFragColor;''"

definition fragColor :: string where
  "fragColor = ''glFragColor''"

definition remove_fragDef :: "string \<Rightarrow> string" where
  "remove_fragDef glsl =
     (case find_str fragDef glsl of
        None \<Rightarrow> glsl
      | Some pos \<Rightarrow> replace_str glsl pos (length fragDef) '''')"

definition rename_fragColor :: "string \<Rightarrow> string" where
  "rename_fragColor glsl =
     (case find_str fragColor glsl of
        None \<Rightarrow> glsl
      | Some pos \<Rightarrow> replace_str glsl pos (length fragColor) ''gl_FragColor'')"

definition android_patch :: "string \<Rightarrow> error + string" where
  "android_patch compiled =
     (case substr compiled (length version_line) of
        Inl e \<Rightarrow> Inl e
      | Inr glsl \<Rightarrow> Inr (rename_fragColor (remove_fragDef glsl)))"

subsection \<open>The whole function\<close>

text \<open>From the semantic model with its combined image samplers built (line 57) to the
  final text: the resources and the combined samplers are read once, before the loops.\<close>

definition transpile ::
  "toolchain \<Rightarrow> bool \<Rightarrow> EShLanguage \<Rightarrow> CompilerGLSL \<Rightarrow> error + ShaderInfo" where
  "transpile tc android stage compiler =
     (let resources = shader_resources compiler;
          combinedSamplers = combined_image_samplers compiler;
          remapped = remap_samplers combinedSamplers (separate_samplers resources) compiler
      in case flatten_uniforms stage resources remapped of
           Inl e \<Rightarrow> Inl e
         | Inr flat \<Rightarrow>
             (case compile tc flat of
                None \<Rightarrow> Inl LibraryError
              | Some emitted \<Rightarrow>
                  (let compiled = cleanup stage emitted
                   in if android then
                        (case android_patch compiled of
                           Inl e \<Rightarrow> Inl e
                         | Inr glsl \<Rightarrow> Inr (flat, glsl))
                      else Inr (flat, compiled))))"

text \<open>The argument \<^verbatim>\<open>glsl\<close> of the source is written and never read, so it is a result here.\<close>

definition CompileShader ::
  "toolchain \<Rightarrow> bool \<Rightarrow> TProgram \<Rightarrow> EShLanguage \<Rightarrow> error + ShaderInfo" where
  "CompileShader tc android program stage =
     (case new_compiler tc program stage of
        None \<Rightarrow> Inl LibraryError
      | Some compiler \<Rightarrow>
          transpile tc android stage
            (build_combined_image_samplers tc (set_target_options android compiler)))"

section \<open>AddShader and Compile\<close>

definition AddShader :: "toolchain \<Rightarrow> TProgram \<Rightarrow> EShLanguage \<Rightarrow> string \<Rightarrow> error + TProgram" where
  "AddShader tc program stage source =
     (if \<not> shader_parse tc stage source then Inl ParseFailure
      else Inr (program @ [(stage, source)]))"

text \<open>
  The callback acts on the caller's state \<open>'w\<close>. \<open>Compile\<close> answers with that state as it is
  when the call ends, and with the exception when one is thrown.
\<close>

definition Compile ::
  "toolchain \<Rightarrow> bool \<Rightarrow> string \<Rightarrow> string \<Rightarrow> (ShaderInfo \<Rightarrow> ShaderInfo \<Rightarrow> 'w \<Rightarrow> 'w) \<Rightarrow> 'w
     \<Rightarrow> (error + unit) \<times> 'w" where
  "Compile tc android vertexSource fragmentSource onCompiled w =
     (case AddShader tc [] EShLangVertex vertexSource of
        Inl e \<Rightarrow> (Inl e, w)
      | Inr program1 \<Rightarrow>
     (case AddShader tc program1 EShLangFragment fragmentSource of
        Inl e \<Rightarrow> (Inl e, w)
      | Inr program \<Rightarrow>
     if \<not> program_link tc program then (Inl LinkFailure, w)
     else
     (case CompileShader tc android program EShLangVertex of
        Inl e \<Rightarrow> (Inl e, w)
      | Inr vertexInfo \<Rightarrow>
     (case CompileShader tc android program EShLangFragment of
        Inl e \<Rightarrow> (Inl e, w)
      | Inr fragmentInfo \<Rightarrow> (Inr (), onCompiled vertexInfo fragmentInfo w)))))"

text \<open>The program that is linked: both shaders added, the vertex shader first.\<close>

definition linked :: "string \<Rightarrow> string \<Rightarrow> TProgram" where
  "linked vertexSource fragmentSource =
     [(EShLangVertex, vertexSource), (EShLangFragment, fragmentSource)]"

section \<open>An example stage\<close>

text \<open>
  The scenario of the specification: a uniform buffer \<^verbatim>\<open>Frame\<close> with a \<^verbatim>\<open>mat4 viewProjection\<close> and a
  \<^verbatim>\<open>vec4 color\<close>, and a separate sampler \<^verbatim>\<open>albedoSampler\<close> at binding 3 that one combined image
  sampler was built from. Type 110 is a second block with one vector, type 120 a block with
  a 3-component vector.
\<close>

definition example_types :: "ID \<Rightarrow> SPIRType" where
  "example_types i =
     (if i = 100 then \<lparr>columns = 1, vecsize = 1, member_types = [101, 102]\<rparr>
      else if i = 101 then \<lparr>columns = 4, vecsize = 4, member_types = []\<rparr>
      else if i = 102 then \<lparr>columns = 1, vecsize = 4, member_types = []\<rparr>
      else if i = 103 then \<lparr>columns = 1, vecsize = 3, member_types = []\<rparr>
      else if i = 110 then \<lparr>columns = 1, vecsize = 1, member_types = [102]\<rparr>
      else if i = 120 then \<lparr>columns = 1, vecsize = 1, member_types = [102, 103]\<rparr>
      else \<lparr>columns = 1, vecsize = 1, member_types = []\<rparr>)"

definition example_member_names :: "ID \<Rightarrow> nat \<Rightarrow> string" where
  "example_member_names i index =
     (if i = 100 \<and> index = 0 then ''viewProjection''
      else if i = 100 \<and> index = 1 then ''color''
      else if i = 110 \<and> index = 0 then ''tint''
      else if i = 120 \<and> index = 0 then ''tint''
      else if i = 120 \<and> index = 1 then ''normal''
      else [])"

definition example_names :: "ID \<Rightarrow> string" where
  "example_names i =
     (if i = 10 then ''frame''
      else if i = 20 then ''albedoSampler''
      else if i = 30 then ''albedo''
      else if i = 40 then ''SPIRV_Cross_CombinedalbedoalbedoSampler''
      else if i = 41 then ''SPIRV_Cross_CombinednormalalbedoSampler''
      else [])"

definition example_bindings :: "ID \<Rightarrow> 32 word option" where
  "example_bindings i =
     (if i = 10 then Some 0 else if i = 20 then Some 3 else if i = 30 then Some 1 else None)"

definition example_frame :: Resource where
  "example_frame = \<lparr>id_res = 10, type_id = 11, base_type_id = 100, name_res = ''Frame''\<rparr>"

definition example_sampler :: Resource where
  "example_sampler =
     \<lparr>id_res = 20, type_id = 21, base_type_id = 22, name_res = ''albedoSampler''\<rparr>"

definition example_combined :: CombinedImageSampler where
  "example_combined = \<lparr>combined_id = 40, image_id = 30, sampler_id = 20\<rparr>"

definition example_model :: CompilerGLSL where
  "example_model =
     \<lparr>common_options =
        \<lparr>version = 450, es = False, emit_uniform_buffer_as_plain_uniforms = False\<rparr>,
      shader_resources =
        \<lparr>uniform_buffers = [example_frame], separate_samplers = [example_sampler]\<rparr>,
      combined_image_samplers = [example_combined],
      names = example_names,
      decoration_binding = example_bindings,
      types = example_types,
      member_names = example_member_names,
      header_lines = []\<rparr>"

text \<open>A stand-in for the emitter: the version line, the header lines, the declaration of
  the struct instance under its current name, and a body that reads one member of it.\<close>

definition example_body :: "string \<Rightarrow> string" where
  "example_body instance =
     ''layout(location = 0) out highp vec4 glFragColor;'' @ [CHR 0x0A]
     @ ''void main(){glFragColor='' @ instance @ ''.color;}''"

definition example_compile :: "(string \<Rightarrow> string) \<Rightarrow> CompilerGLSL \<Rightarrow> string option" where
  "example_compile body compiler =
     Some ((if es (common_options compiler) then ''#version 300 es'' else ''#version 430'')
           @ [CHR 0x0A]
           @ concat (map (\<lambda>line. line @ [CHR 0x0A]) (header_lines compiler))
           @ ''uniform Frame '' @ names compiler 10 @ '';'' @ [CHR 0x0A]
           @ body (names compiler 10))"

text \<open>A stand-in for the libraries: the parser refuses the empty source, every program
  links, and every stage has the given semantic model.\<close>

definition example_toolchain :: "CompilerGLSL \<Rightarrow> (string \<Rightarrow> string) \<Rightarrow> toolchain" where
  "example_toolchain model body =
     \<lparr>shader_parse = (\<lambda>stage source. source \<noteq> []),
      program_link = (\<lambda>program. True),
      new_compiler = (\<lambda>program stage. Some model),
      build_combined_image_samplers = (\<lambda>compiler. compiler),
      compile = example_compile body\<rparr>"

lemmas example_defs =
  example_toolchain_def example_model_def example_compile_def example_body_def
  example_types_def example_member_names_def example_names_def example_bindings_def
  example_frame_def example_sampler_def example_combined_def

lemmas model_defs =
  CompileShader_def transpile_def flatten_uniforms_def remap_sampler_def
  get_decoration_def set_decoration_def unset_decoration_def set_name_def get_type_def
  get_member_name_def add_header_line_def uniform_type_def unused_name_def
  set_target_options_def cleanup_def comment_unused_def unusedUniform_def
  unusedUniformAccess_def android_patch_def substr_def version_line_def fragDef_def
  fragColor_def remove_fragDef_def rename_fragColor_def replace_str_def
  remove_accesses.simps Let_def

text \<open>The same sampler used with a second texture: two combined image samplers come from
  it. And a separate sampler that no combined image sampler was built from.\<close>

definition example_combined2 :: CombinedImageSampler where
  "example_combined2 = \<lparr>combined_id = 41, image_id = 31, sampler_id = 20\<rparr>"

definition example_shared :: CompilerGLSL where
  "example_shared =
     example_model\<lparr>combined_image_samplers := [example_combined, example_combined2]\<rparr>"

definition example_lone :: Resource where
  "example_lone =
     \<lparr>id_res = 25, type_id = 21, base_type_id = 22, name_res = ''shadowSampler''\<rparr>"



definition example_vec3 :: CompilerGLSL where
  "example_vec3 =
     example_model\<lparr>shader_resources :=
       \<lparr>uniform_buffers =
          [\<lparr>id_res = 10, type_id = 11, base_type_id = 120, name_res = ''Frame''\<rparr>],
        separate_samplers = [example_sampler]\<rparr>\<rparr>"

text \<open>A fragment body that writes the output twice.\<close>

definition example_two_writes :: "string \<Rightarrow> string" where
  "example_two_writes instance =
     ''layout(location = 0) out highp vec4 glFragColor;'' @ [CHR 0x0A]
     @ ''void main(){glFragColor='' @ instance @ ''.color;glFragColor.w=1.0;}''"






section \<open>Erasing occurrences\<close>


section \<open>Which exception a step can raise\<close>

lemma add_uniforms_error:
  "add_uniforms base ms index compiler = Inl e \<Longrightarrow> e = UnsupportedUniformShape"
  by (induction ms arbitrary: index compiler)
     (auto simp: Let_def uniform_type_def split: if_splits sum.splits)

lemma android_patch_error: "android_patch s = Inl e \<Longrightarrow> e = SubstrOutOfRange"
  by (auto simp: android_patch_def substr_def split: if_splits sum.splits)

lemma flatten_uniforms_index:
  "flatten_uniforms stage resources compiler = Inl UniformBufferIndex
     \<longleftrightarrow> uniform_buffers resources = []"
  by (auto simp: flatten_uniforms_def split: list.splits sum.splits dest: add_uniforms_error)

lemma transpile_index:
  "transpile tc android stage compiler = Inl UniformBufferIndex
     \<longleftrightarrow> uniform_buffers (shader_resources compiler) = []"
proof -
  have "transpile tc android stage compiler = Inl UniformBufferIndex
     \<longleftrightarrow> flatten_uniforms stage (shader_resources compiler)
           (remap_samplers (combined_image_samplers compiler)
              (separate_samplers (shader_resources compiler)) compiler) = Inl UniformBufferIndex"
    by (auto simp: transpile_def Let_def split: sum.splits option.splits if_splits
          dest: android_patch_error)
  then show ?thesis by (simp add: flatten_uniforms_index)
qed

section \<open>The unchecked read of the first uniform buffer\<close>

text \<open>
  Claim C9. \<^verbatim>\<open>CompileShader\<close> reads \<^verbatim>\<open>uniform_buffers[0]\<close> with no check that the vector has an
  element. With the read made total, its out-of-range branch is taken exactly when the
  stage's semantic model declares no uniform buffer: a stage with none ends in that branch,
  and a stage with at least one never does.
\<close>

theorem uniform_buffer_index_unchecked:
  "CompileShader tc android program stage = Inl UniformBufferIndex
     \<longleftrightarrow> (\<exists>compiler. new_compiler tc program stage = Some compiler \<and>
            uniform_buffers (shader_resources
              (build_combined_image_samplers tc (set_target_options android compiler))) = [])"
  by (auto simp: CompileShader_def transpile_index split: option.splits)

section \<open>Compile\<close>

lemma Compile_unfold:
  "Compile tc android vertexSource fragmentSource onCompiled w =
     (if \<not> shader_parse tc EShLangVertex vertexSource then (Inl ParseFailure, w)
      else if \<not> shader_parse tc EShLangFragment fragmentSource then (Inl ParseFailure, w)
      else if \<not> program_link tc (linked vertexSource fragmentSource) then (Inl LinkFailure, w)
      else (case CompileShader tc android (linked vertexSource fragmentSource) EShLangVertex of
              Inl e \<Rightarrow> (Inl e, w)
            | Inr vertexInfo \<Rightarrow>
                (case CompileShader tc android (linked vertexSource fragmentSource)
                        EShLangFragment of
                   Inl e \<Rightarrow> (Inl e, w)
                 | Inr fragmentInfo \<Rightarrow> (Inr (), onCompiled vertexInfo fragmentInfo w))))"
  by (auto simp: Compile_def AddShader_def linked_def split: sum.splits)

lemma example_stage_text:
  "map_sum (\<lambda>e. e) snd
     (CompileShader (example_toolchain example_model example_body) False program stage)
   = Inr (''#version 430'' @ [CHR 0x0A]
          @ ''uniform mat4 viewProjection;'' @ [CHR 0x0A]
          @ ''uniform vec4 color;'' @ [CHR 0x0A]
          @ (if stage = EShLangVertex then ''//uniform Frame UnusedVS;''
             else ''//uniform Frame UnusedFS;'') @ [CHR 0x0A]
          @ ''layout(location = 0) out highp vec4 glFragColor;'' @ [CHR 0x0A]
          @ ''void main(){glFragColor=color;}'')"
  by (cases stage) (simp_all add: model_defs example_defs)

lemma example_stage_ok:
  "\<exists>info. CompileShader (example_toolchain example_model example_body) False program stage
          = Inr info"
  using example_stage_text [of program stage]
  by (cases "CompileShader (example_toolchain example_model example_body) False program stage")
     simp_all

lemma example_Compile_ok:
  "vertexSource \<noteq> [] \<Longrightarrow> fragmentSource \<noteq> [] \<Longrightarrow>
   fst (Compile (example_toolchain example_model example_body) False vertexSource fragmentSource
          onCompiled w) = Inr ()"
  using example_stage_ok [of "linked vertexSource fragmentSource" EShLangVertex]
        example_stage_ok [of "linked vertexSource fragmentSource" EShLangFragment]
  by (auto simp: Compile_unfold) (simp_all add: example_toolchain_def)

text \<open>
  Claim C4. A step fails when it throws: the parse of the vertex source, the parse of the
  fragment source, the link of the program, or a call of \<^verbatim>\<open>CompileShader\<close> that ends in an
  exception. The unchecked read of line 89 throws nothing, so a stage that ends in
  \<open>UniformBufferIndex\<close> is no failing step, and the call for the fragment stage counts only
  when the vertex stage has not gone through that read. When a step fails, \<^verbatim>\<open>Compile\<close> ends with
  a thrown exception and the caller's state is the one before the call: the callback has not
  run and no \<^verbatim>\<open>ShaderInfo\<close> has been handed over.
\<close>

theorem compile_failure_is_fatal:
  assumes "\<not> shader_parse tc EShLangVertex vertexSource
         \<or> \<not> shader_parse tc EShLangFragment fragmentSource
         \<or> \<not> program_link tc (linked vertexSource fragmentSource)
         \<or> (\<exists>e. e \<noteq> UniformBufferIndex \<and>
                  CompileShader tc android (linked vertexSource fragmentSource) EShLangVertex
                  = Inl e)
         \<or> (CompileShader tc android (linked vertexSource fragmentSource) EShLangVertex
                \<noteq> Inl UniformBufferIndex \<and>
              (\<exists>e. e \<noteq> UniformBufferIndex \<and>
                  CompileShader tc android (linked vertexSource fragmentSource) EShLangFragment
                  = Inl e))"
  shows "\<exists>e. e \<noteq> UniformBufferIndex \<and>
             Compile tc android vertexSource fragmentSource onCompiled w = (Inl e, w)"
  using assms by (auto simp: Compile_unfold split: sum.splits)

theorem compile_failure_is_fatal_witness:
  "CompileShader (example_toolchain example_vec3 example_body) False (linked ''v'' ''f'')
     EShLangVertex = Inl UnsupportedUniformShape \<and>
   (\<exists>e. e \<noteq> UniformBufferIndex \<and>
         Compile (example_toolchain example_vec3 example_body) False ''v'' ''f''
           (\<lambda>v f calls. calls @ [(v, f)]) [] = (Inl e, []))"
proof -
  let ?tc = "example_toolchain example_vec3 example_body"
  have h: "CompileShader ?tc False (linked ''v'' ''f'') EShLangVertex
             = Inl UnsupportedUniformShape"
    by (simp add: model_defs example_defs example_vec3_def)
  then have "\<exists>e. e \<noteq> UniformBufferIndex \<and>
                 CompileShader ?tc False (linked ''v'' ''f'') EShLangVertex = Inl e"
    by simp
  then have "\<exists>e. e \<noteq> UniformBufferIndex \<and>
                 Compile ?tc False ''v'' ''f'' (\<lambda>v f calls. calls @ [(v, f)]) [] = (Inl e, [])"
    using compile_failure_is_fatal
      [of ?tc "''v''" "''f''" False "\<lambda>v f calls. calls @ [(v, f)]" "[]"]
    by blast
  with h show ?thesis by blast
qed

text \<open>
  Claim C7. When \<^verbatim>\<open>Compile\<close> succeeds, the caller's state at its return is the state before the
  call with the callback applied once, to the results of the two stages: the callback has
  run within the call, and a callback that records its calls has recorded exactly one.
\<close>

theorem compile_success_calls_once:
  assumes "fst (Compile tc android vertexSource fragmentSource onCompiled w) = Inr ()"
  shows "\<exists>vertexInfo fragmentInfo.
           CompileShader tc android (linked vertexSource fragmentSource) EShLangVertex
             = Inr vertexInfo \<and>
           CompileShader tc android (linked vertexSource fragmentSource) EShLangFragment
             = Inr fragmentInfo \<and>
           snd (Compile tc android vertexSource fragmentSource onCompiled w)
             = onCompiled vertexInfo fragmentInfo w \<and>
           snd (Compile tc android vertexSource fragmentSource
                  (\<lambda>v f calls. calls @ [(v, f)]) [])
             = [(vertexInfo, fragmentInfo)]"
  using assms by (auto simp: Compile_unfold split: sum.splits if_splits)

theorem compile_success_calls_once_witness:
  "fst (Compile (example_toolchain example_model example_body) False ''v'' ''f''
          (\<lambda>v f n. Suc n) (0::nat)) = Inr () \<and>
   snd (Compile (example_toolchain example_model example_body) False ''v'' ''f''
          (\<lambda>v f n. Suc n) (0::nat)) = 1 \<and>
   length (snd (Compile (example_toolchain example_model example_body) False ''v'' ''f''
          (\<lambda>v f calls. calls @ [(v, f)]) [])) = 1"
proof -
  have h: "fst (Compile (example_toolchain example_model example_body) False ''v'' ''f''
                  (\<lambda>v f n. Suc n) (0::nat)) = Inr ()"
    by (rule example_Compile_ok) simp_all
  from compile_success_calls_once [OF h] h show ?thesis by auto
qed

section \<open>The sampler loops\<close>

lemma find_combined_none:
  "\<forall>combined \<in> set combinedSamplers. sampler_id combined \<noteq> i \<Longrightarrow>
   find_combined combinedSamplers i = i"
  by (induction combinedSamplers) auto

lemma find_combined_first:
  "\<forall>c \<in> set before. sampler_id c \<noteq> i \<Longrightarrow> sampler_id combined = i \<Longrightarrow>
   find_combined (before @ combined # after) i = combined_id combined"
  by (induction before) auto

lemma find_combined_cases:
  "(find_combined combinedSamplers i = i \<and>
      (\<forall>combined \<in> set combinedSamplers. sampler_id combined \<noteq> i))
   \<or> (\<exists>combined \<in> set combinedSamplers.
          sampler_id combined = i \<and> find_combined combinedSamplers i = combined_id combined)"
  by (induction combinedSamplers) auto

lemma names_remap_sampler:
  "names (remap_sampler combinedSamplers separate compiler) =
     (names compiler)(find_combined combinedSamplers (id_res separate) := name_res separate)"
  by (simp add: remap_sampler_def set_decoration_def set_name_def Let_def)

lemma binding_remap_sampler:
  "decoration_binding (remap_sampler combinedSamplers separate compiler) =
     (decoration_binding compiler)
       (find_combined combinedSamplers (id_res separate) :=
          Some (get_decoration compiler (id_res separate)))"
  by (simp add: remap_sampler_def set_decoration_def set_name_def Let_def)

lemma rest_remap_sampler:
  "types (remap_sampler combinedSamplers separate compiler) = types compiler"
  "member_names (remap_sampler combinedSamplers separate compiler) = member_names compiler"
  "header_lines (remap_sampler combinedSamplers separate compiler) = header_lines compiler"
  by (simp_all add: remap_sampler_def set_decoration_def set_name_def Let_def)

lemma rest_remap_samplers:
  "types (remap_samplers combinedSamplers separates compiler) = types compiler"
  "member_names (remap_samplers combinedSamplers separates compiler) = member_names compiler"
  "header_lines (remap_samplers combinedSamplers separates compiler) = header_lines compiler"
  by (induction separates arbitrary: compiler) (simp_all add: rest_remap_sampler)

text \<open>An identifier that no pass of the loop writes keeps its name and its binding.\<close>

lemma remap_samplers_frame:
  "\<forall>separate \<in> set separates. find_combined combinedSamplers (id_res separate) \<noteq> i \<Longrightarrow>
   names (remap_samplers combinedSamplers separates compiler) i = names compiler i \<and>
   decoration_binding (remap_samplers combinedSamplers separates compiler) i
     = decoration_binding compiler i"
  by (induction separates arbitrary: compiler)
     (auto simp: names_remap_sampler binding_remap_sampler)

text \<open>With unique identifiers, two separate samplers are never written to the same
  identifier, and no pass writes to another separate sampler.\<close>

lemma find_combined_inj:
  assumes "distinct (map combined_id combinedSamplers)"
    and "i \<notin> set (map combined_id combinedSamplers)"
    and "j \<notin> set (map combined_id combinedSamplers)"
    and "i \<noteq> j"
  shows "find_combined combinedSamplers i \<noteq> find_combined combinedSamplers j"
proof
  assume eq: "find_combined combinedSamplers i = find_combined combinedSamplers j"
  from find_combined_cases [of combinedSamplers i] find_combined_cases [of combinedSamplers j]
  consider
      (own) "find_combined combinedSamplers i = i" "find_combined combinedSamplers j = j"
    | (left) c where "c \<in> set combinedSamplers" "find_combined combinedSamplers i = combined_id c"
        "find_combined combinedSamplers j = j"
    | (right) c where "c \<in> set combinedSamplers" "find_combined combinedSamplers j = combined_id c"
        "find_combined combinedSamplers i = i"
    | (both) c d where "c \<in> set combinedSamplers" "d \<in> set combinedSamplers"
        "sampler_id c = i" "sampler_id d = j"
        "find_combined combinedSamplers i = combined_id c"
        "find_combined combinedSamplers j = combined_id d"
    by blast
  then show False
  proof cases
    case own
    with eq assms(4) show False by simp
  next
    case left
    with eq assms(3) show False by force
  next
    case right
    with eq assms(2) show False by force
  next
    case both
    from both eq have "combined_id c = combined_id d" by simp
    with assms(1) both(1,2) have "c = d"
      by (meson distinct_map inj_onD)
    with both assms(4) show False by simp
  qed
qed

lemma find_combined_not_separate:
  assumes "i \<notin> set (map combined_id combinedSamplers)"
    and "j \<notin> set (map combined_id combinedSamplers)"
    and "i \<noteq> j"
  shows "find_combined combinedSamplers i \<noteq> j"
  using find_combined_cases [of combinedSamplers i] assms by force

lemma remap_samplers_target:
  assumes "distinct (map id_res separates)"
    and "distinct (map combined_id combinedSamplers)"
    and "set (map combined_id combinedSamplers) \<inter> set (map id_res separates) = {}"
    and "separate \<in> set separates"
  shows "names (remap_samplers combinedSamplers separates compiler)
           (find_combined combinedSamplers (id_res separate)) = name_res separate \<and>
         decoration_binding (remap_samplers combinedSamplers separates compiler)
           (find_combined combinedSamplers (id_res separate))
           = Some (get_decoration compiler (id_res separate))"
  using assms
proof (induction separates arbitrary: compiler)
  case Nil
  then show ?case by simp
next
  case (Cons first rest)
  let ?target = "\<lambda>r. find_combined combinedSamplers (id_res r)"
  let ?next = "remap_sampler combinedSamplers first compiler"
  have fresh: "id_res r \<notin> set (map combined_id combinedSamplers)"
    if "r \<in> set (first # rest)" for r
    using Cons.prems(3) that by auto
  show ?case
  proof (cases "separate = first")
    case True
    have "\<forall>r \<in> set rest. ?target r \<noteq> ?target first"
    proof
      fix r assume r: "r \<in> set rest"
      then have "id_res r \<in> id_res ` set rest" by simp
      with Cons.prems(1) have "id_res r \<noteq> id_res first" by auto
      with r show "?target r \<noteq> ?target first"
        using find_combined_inj [OF Cons.prems(2), of "id_res r" "id_res first"] fresh by simp
    qed
    from remap_samplers_frame [OF this, of ?next] True show ?thesis
      by (simp add: names_remap_sampler binding_remap_sampler)
  next
    case False
    with Cons.prems(4) have mem: "separate \<in> set rest" by simp
    with Cons.prems(1) have ne: "id_res first \<noteq> id_res separate" by auto
    have "?target first \<noteq> id_res separate"
      using find_combined_not_separate [of "id_res first" combinedSamplers "id_res separate"]
        fresh mem ne by simp
    then have same: "get_decoration ?next (id_res separate)
                   = get_decoration compiler (id_res separate)"
      by (simp add: get_decoration_def binding_remap_sampler)
    from Cons.prems have "distinct (map id_res rest)"
      and "set (map combined_id combinedSamplers) \<inter> set (map id_res rest) = {}"
      by auto
    from Cons.IH [OF this(1) Cons.prems(2) this(2) mem, of ?next] same
    show ?thesis by simp
  qed
qed

text \<open>The loop changes names and bindings and nothing else.\<close>

lemma only_names_bindings:
  fixes r r' :: CompilerGLSL
  assumes "common_options r' = common_options r"
    and "shader_resources r' = shader_resources r"
    and "combined_image_samplers r' = combined_image_samplers r"
    and "types r' = types r"
    and "member_names r' = member_names r"
    and "header_lines r' = header_lines r"
  shows "r' = r\<lparr>names := names r', decoration_binding := decoration_binding r'\<rparr>"
  using assms by (cases r, cases r') simp

lemma remap_samplers_fields:
  "common_options (remap_samplers combinedSamplers separates compiler) = common_options compiler"
  "shader_resources (remap_samplers combinedSamplers separates compiler)
     = shader_resources compiler"
  "combined_image_samplers (remap_samplers combinedSamplers separates compiler)
     = combined_image_samplers compiler"
  by (induction separates arbitrary: compiler)
     (simp_all add: remap_sampler_def set_decoration_def set_name_def Let_def)

lemma remap_samplers_only_names_bindings:
  "remap_samplers combinedSamplers separates compiler
     = compiler\<lparr>names := names (remap_samplers combinedSamplers separates compiler),
                 decoration_binding :=
                   decoration_binding (remap_samplers combinedSamplers separates compiler)\<rparr>"
  by (rule only_names_bindings) (simp_all add: remap_samplers_fields rest_remap_samplers)

section \<open>Sampler names and bindings\<close>

text \<open>
  Claim C1, as stated: every combined image sampler whose sampler is a given separate
  sampler carries, after the loop, that sampler's name and binding. It fails when one
  sampler is combined with two textures: the inner loop stops at the first combined entry,
  and the second keeps the name and the (missing) binding the library gave it.
\<close>

theorem remap_second_combined_counterexample:
  "example_combined2 \<in> set (combined_image_samplers example_shared) \<and>
   example_sampler \<in> set (separate_samplers (shader_resources example_shared)) \<and>
   sampler_id example_combined2 = id_res example_sampler \<and>
   names (remap_samplers (combined_image_samplers example_shared)
            (separate_samplers (shader_resources example_shared)) example_shared)
      (combined_id example_combined2) \<noteq> name_res example_sampler \<and>
   decoration_binding (remap_samplers (combined_image_samplers example_shared)
            (separate_samplers (shader_resources example_shared)) example_shared)
      (combined_id example_combined2) = None \<and>
   get_decoration example_shared (id_res example_sampler) = 3"
  by (simp add: example_shared_def example_combined2_def example_defs remap_sampler_def
        get_decoration_def set_decoration_def set_name_def)

text \<open>
  Claim C1, amended. In a model whose identifiers are unique (the separate samplers have
  pairwise different identifiers, so have the combined image samplers, and no identifier is
  both), for every separate sampler of the list the first combined entry built from it
  carries, after the loop, the sampler's name from the resource list and the binding the
  sampler had before the loop (0 when it had none); every further combined entry built from
  the same sampler keeps the name and the binding decoration it had before the loop.
\<close>

theorem remap_first_combined:
  assumes "distinct (map id_res separates)"
    and "distinct (map combined_id combinedSamplers)"
    and "set (map combined_id combinedSamplers) \<inter> set (map id_res separates) = {}"
    and "separate \<in> set separates"
    and "combinedSamplers = before @ combined # after"
    and "\<forall>c \<in> set before. sampler_id c \<noteq> id_res separate"
    and "sampler_id combined = id_res separate"
  shows "names (remap_samplers combinedSamplers separates compiler) (combined_id combined)
           = name_res separate \<and>
         decoration_binding (remap_samplers combinedSamplers separates compiler)
           (combined_id combined) = Some (get_decoration compiler (id_res separate)) \<and>
         (\<forall>later \<in> set after. sampler_id later = id_res separate \<longrightarrow>
            names (remap_samplers combinedSamplers separates compiler) (combined_id later)
              = names compiler (combined_id later) \<and>
            decoration_binding (remap_samplers combinedSamplers separates compiler)
              (combined_id later) = decoration_binding compiler (combined_id later))"
proof -
  from assms(5-7) have first:
    "find_combined combinedSamplers (id_res separate) = combined_id combined"
    by (simp add: find_combined_first)
  have kept: "names (remap_samplers combinedSamplers separates compiler) (combined_id later)
                = names compiler (combined_id later) \<and>
              decoration_binding (remap_samplers combinedSamplers separates compiler)
                (combined_id later) = decoration_binding compiler (combined_id later)"
    if later: "later \<in> set after" "sampler_id later = id_res separate" for later
  proof (rule remap_samplers_frame, rule ballI)
    fix s assume s: "s \<in> set separates"
    from later(1) assms(5) have mem: "later \<in> set combinedSamplers" by simp
    from assms(2,5) later(1) have apart: "combined_id combined \<noteq> combined_id later"
      by auto
    show "find_combined combinedSamplers (id_res s) \<noteq> combined_id later"
    proof
      assume eq: "find_combined combinedSamplers (id_res s) = combined_id later"
      from find_combined_cases [of combinedSamplers "id_res s"]
      show False
      proof (elim disjE conjE bexE)
        assume "find_combined combinedSamplers (id_res s) = id_res s"
        with eq have "id_res s = combined_id later" by simp
        with s mem assms(3) show False by force
      next
        fix c assume c: "c \<in> set combinedSamplers" "sampler_id c = id_res s"
          "find_combined combinedSamplers (id_res s) = combined_id c"
        with eq have "combined_id c = combined_id later" by simp
        with assms(2) c(1) mem have "c = later"
          by (meson distinct_map inj_onD)
        with c(2) later(2) have "id_res s = id_res separate" by simp
        with eq first apart show False by simp
      qed
    qed
  qed
  from remap_samplers_target [OF assms(1-4), of compiler] first kept
  show ?thesis by simp
qed

theorem remap_first_combined_witness:
  "distinct (map id_res [example_sampler, example_lone]) \<and>
   distinct (map combined_id [example_combined, example_combined2]) \<and>
   set (map combined_id [example_combined, example_combined2])
     \<inter> set (map id_res [example_sampler, example_lone]) = {} \<and>
   sampler_id example_combined = id_res example_sampler \<and>
   sampler_id example_combined2 = id_res example_sampler \<and>
   names (remap_samplers [example_combined, example_combined2] [example_sampler, example_lone]
            example_model) 40 = ''albedoSampler'' \<and>
   decoration_binding
     (remap_samplers [example_combined, example_combined2] [example_sampler, example_lone]
        example_model) 40 = Some 3 \<and>
   names (remap_samplers [example_combined, example_combined2] [example_sampler, example_lone]
            example_model) 41 = ''SPIRV_Cross_CombinednormalalbedoSampler'' \<and>
   decoration_binding
     (remap_samplers [example_combined, example_combined2] [example_sampler, example_lone]
        example_model) 41 = None"
proof -
  let ?after = "remap_samplers [example_combined, example_combined2]
                  [example_sampler, example_lone] example_model"
  have 1: "distinct (map id_res [example_sampler, example_lone])"
    by (simp add: example_sampler_def example_lone_def)
  have 2: "distinct (map combined_id [example_combined, example_combined2])"
    by (simp add: example_combined_def example_combined2_def)
  have 3: "set (map combined_id [example_combined, example_combined2])
             \<inter> set (map id_res [example_sampler, example_lone]) = {}"
    by (simp add: example_combined_def example_combined2_def example_sampler_def
          example_lone_def)
  have 4: "example_sampler \<in> set [example_sampler, example_lone]" by simp
  have 5: "[example_combined, example_combined2] = [] @ example_combined # [example_combined2]"
    by simp
  have 6: "\<forall>c \<in> set []. sampler_id c \<noteq> id_res example_sampler" by simp
  have 7: "sampler_id example_combined = id_res example_sampler"
    by (simp add: example_combined_def example_sampler_def)
  have 8: "get_decoration example_model (id_res example_sampler) = 3"
    by (simp add: get_decoration_def example_defs)
  have 9: "sampler_id example_combined2 = id_res example_sampler"
    by (simp add: example_combined2_def example_sampler_def)
  note carried = remap_first_combined [OF 1 2 3 4 5 6 7, of example_model]
  from carried 8 have first: "names ?after 40 = ''albedoSampler''"
    "decoration_binding ?after 40 = Some 3"
    by (simp_all add: example_combined_def example_sampler_def)
  from carried 9 have "names ?after (combined_id example_combined2)
                         = names example_model (combined_id example_combined2)"
    "decoration_binding ?after (combined_id example_combined2)
       = decoration_binding example_model (combined_id example_combined2)"
    by simp_all
  then have second: "names ?after 41 = ''SPIRV_Cross_CombinednormalalbedoSampler''"
    "decoration_binding ?after 41 = None"
    by (simp_all add: example_combined2_def example_defs)
  from 1 2 3 7 9 first second show ?thesis by blast
qed

text \<open>
  Claim C10. For a separate sampler that no combined image sampler was built from, the pass
  of the loop writes to the sampler itself: it gets the name the resource list has for it
  and the binding value it already had. No binding value changes, no other identifier is
  renamed (so no combined image sampler is), and nothing is renamed at all when the name in
  the resource list is the one the model holds. The loop has no exit by exception: for every
  list of separate samplers and of combined image samplers it returns the model, changed in
  names and bindings only.
\<close>

theorem remap_sampler_without_combined:
  assumes "\<forall>combined \<in> set combinedSamplers. sampler_id combined \<noteq> id_res separate"
  shows "remap_sampler combinedSamplers separate compiler
           = set_decoration (id_res separate) (get_decoration compiler (id_res separate))
               (set_name (id_res separate) (name_res separate) compiler) \<and>
         names (remap_sampler combinedSamplers separate compiler) (id_res separate)
           = name_res separate \<and>
         (\<forall>i. get_decoration (remap_sampler combinedSamplers separate compiler) i
                = get_decoration compiler i) \<and>
         (\<forall>i. i \<noteq> id_res separate \<longrightarrow>
                names (remap_sampler combinedSamplers separate compiler) i = names compiler i) \<and>
         (names compiler (id_res separate) = name_res separate \<longrightarrow>
                names (remap_sampler combinedSamplers separate compiler) = names compiler) \<and>
         (\<forall>separates others model.
            remap_samplers others separates model
              = model\<lparr>names := names (remap_samplers others separates model),
                      decoration_binding :=
                        decoration_binding (remap_samplers others separates model)\<rparr>)"
proof -
  from assms have own: "find_combined combinedSamplers (id_res separate) = id_res separate"
    by (rule find_combined_none)
  then show ?thesis
    using remap_samplers_only_names_bindings
    by (auto simp: remap_sampler_def Let_def get_decoration_def set_decoration_def set_name_def)
qed

theorem remap_sampler_without_combined_witness:
  "sampler_id example_combined \<noteq> id_res example_lone \<and>
   names (remap_sampler [example_combined] example_lone example_model) 25 = ''shadowSampler'' \<and>
   get_decoration (remap_sampler [example_combined] example_lone example_model) 25
     = get_decoration example_model 25 \<and>
   names (remap_sampler [example_combined] example_lone example_model) 40
     = names example_model 40 \<and>
   get_decoration (remap_sampler [example_combined] example_lone example_model) 40
     = get_decoration example_model 40"
proof -
  have h: "\<forall>combined \<in> set [example_combined]. sampler_id combined \<noteq> id_res example_lone"
    by (simp add: example_combined_def example_lone_def)
  let ?after = "remap_sampler [example_combined] example_lone example_model"
  from remap_sampler_without_combined [OF h, of example_model]
  have own: "names ?after (id_res example_lone) = name_res example_lone"
    and bindings: "\<forall>i. get_decoration ?after i = get_decoration example_model i"
    and others: "\<forall>i. i \<noteq> id_res example_lone \<longrightarrow> names ?after i = names example_model i"
    by blast+
  have "(40::ID) \<noteq> id_res example_lone" by (simp add: example_lone_def)
  with others have "names ?after 40 = names example_model 40" by blast
  with own bindings h show ?thesis by (simp add: example_lone_def)
qed

section \<open>The uniform loop\<close>






section \<open>The header lines of the first uniform buffer\<close>




section \<open>Searching and cutting texts\<close>











section \<open>Occurrences that a patch leaves alone\<close>






section \<open>The patches, step by step\<close>











section \<open>A declaration line in the final text\<close>









section \<open>From the emitted text to the final text\<close>




section \<open>Flat uniform declarations\<close>




section \<open>The unused struct instance\<close>







section \<open>The patch of the constrained preset\<close>

text \<open>
  Claim C6 at a fragment stage whose body writes \<^verbatim>\<open>glFragColor\<close> twice, under the constrained
  preset. The version line and the output declaration are gone from the final text and the
  first write goes to \<^verbatim>\<open>gl_FragColor\<close>, but the second write still names \<^verbatim>\<open>glFragColor\<close>, whose
  declaration was removed: the rename is done once (an \<^verbatim>\<open>if\<close>), where the erasure of the
  accessors just above it is repeated until nothing is found (a \<^verbatim>\<open>while\<close>).
\<close>

theorem second_write_keeps_glFragColor:
  "(case CompileShader (example_toolchain example_model example_two_writes) True []
           EShLangFragment of
      Inl e \<Rightarrow> False
    | Inr (flat, glsl) \<Rightarrow>
        glsl = ''uniform mat4 viewProjection;'' @ [CHR 0x0A]
               @ ''uniform vec4 color;'' @ [CHR 0x0A]
               @ ''//uniform Frame UnusedFS;'' @ [CHR 0x0A]
               @ [CHR 0x0A]
               @ ''void main(){gl_FragColor=color;glFragColor.w=1.0;}'' \<and>
        find_str fragDef glsl = None \<and>
        find_str fragColor glsl = Some 107)"
  by code_simp

end
